theory Spec2Isabelle
  imports Complex_Main
begin

section \<open>Errors and outcomes\<close>

text \<open>
  Go error values. \<open>Errorf fmt args\<close> is the value of \<open>fmt.Errorf(fmt, args...)\<close>: the
  format string is kept as the source writes it and the arguments are kept beside it
  (an error argument of \<open>%s\<close> or \<open>%w\<close> is kept as the error). \<open>ExtError\<close> is an error
  produced by code outside the modelled files (the operating system, the websocket
  library, the netceptor and workceptor packages).
\<close>

datatype error =
    ErrTimeout
  | ErrInvalidHTTPHeader
  | Errorf string "fmtarg list"
  | ExtError string
and fmtarg = Str string | Err error

text \<open>
  A Go call either returns or panics (an index out of range, a nil dereference, closing
  a closed channel).
\<close>

datatype 'a outcome = Panic string | Return 'a

fun isPanic :: "'a outcome \<Rightarrow> bool" where
  "isPanic (Panic m) = True"
| "isPanic (Return x) = False"

section \<open>The functions of package strings that the code calls\<close>

text \<open>
  A Go string is a sequence of bytes; \<open>string\<close> is a list of 8-bit characters.
\<close>

definition isASCII :: "char \<Rightarrow> bool" where
  "isASCII c = ((of_char c :: nat) < 128)"

definition isUpper :: "char \<Rightarrow> bool" where
  "isUpper c = (65 \<le> (of_char c :: nat) \<and> (of_char c :: nat) \<le> 90)"

definition lowerByte :: "char \<Rightarrow> char" where
  "lowerByte c = (if isUpper c then char_of ((of_char c :: nat) + 32) else c)"

text \<open>
  \<open>strings.ToLower\<close>: a string of ASCII bytes is returned as it is when it has no upper
  case letter and has \<open>'a' - 'A'\<close> added to each upper case letter otherwise. A string
  with a byte from \<open>utf8.RuneSelf\<close> on is mapped rune by rune through the Unicode tables
  of the Go library, which are the parameter \<open>unicodeLower\<close>.
\<close>

definition ToLower :: "(string \<Rightarrow> string) \<Rightarrow> string \<Rightarrow> string" where
  "ToLower unicodeLower s =
     (if list_all isASCII s
      then (if list_ex isUpper s then map lowerByte s else s)
      else unicodeLower s)"

definition HasPrefix :: "string \<Rightarrow> string \<Rightarrow> bool" where
  "HasPrefix s p = (length p \<le> length s \<and> take (length p) s = p)"

text \<open>
  The separators the code passes to \<open>strings.Contains\<close>, \<open>strings.Split\<close> and
  \<open>strings.SplitN\<close> are the one-byte strings \<open>","\<close> and \<open>":"\<close>, so the separator is a
  byte here. \<open>IndexByte\<close> is \<open>None\<close> where Go returns \<open>-1\<close>.
\<close>

fun IndexByte :: "string \<Rightarrow> char \<Rightarrow> nat option" where
  "IndexByte [] c = None"
| "IndexByte (x # xs) c = (if x = c then Some 0 else map_option Suc (IndexByte xs c))"

definition Contains :: "string \<Rightarrow> char \<Rightarrow> bool" where
  "Contains s c = (IndexByte s c \<noteq> None)"

definition Count :: "string \<Rightarrow> char \<Rightarrow> nat" where
  "Count s c = length (filter (\<lambda>x. x = c) s)"

text \<open>
  The loop of \<open>genSplit\<close>: at most \<open>k\<close> cuts, each at the first separator of what is
  left; the rest of the string is the last element.
\<close>

fun splitLoop :: "nat \<Rightarrow> string \<Rightarrow> char \<Rightarrow> string list" where
  "splitLoop 0 s c = [s]"
| "splitLoop (Suc k) s c =
     (case IndexByte s c of
        None \<Rightarrow> [s]
      | Some m \<Rightarrow> take m s # splitLoop k (drop (Suc m) s) c)"

definition SplitN :: "string \<Rightarrow> char \<Rightarrow> int \<Rightarrow> string list" where
  "SplitN s c n =
     (if n = 0 then []
      else if n < 0 then splitLoop (Count s c) s c
      else splitLoop (nat n - 1) s c)"

definition Split :: "string \<Rightarrow> char \<Rightarrow> string list" where
  "Split s c = SplitN s c (- 1)"

text \<open>
  \<open>strings.TrimSpace\<close> on ASCII white space (tab, line feed, vertical tab, form feed,
  carriage return, space). The Unicode spaces beyond ASCII that Go also trims are not
  part of this model; no statement below depends on the trimmed peer names.
\<close>

definition isSpace :: "char \<Rightarrow> bool" where
  "isSpace c = ((of_char c :: nat) \<in> {9, 10, 11, 12, 13, 32})"

definition TrimSpace :: "string \<Rightarrow> string" where
  "TrimSpace s = rev (dropWhile isSpace (rev (dropWhile isSpace s)))"

section \<open>The node configuration\<close>

record nodeCfg =
  ID :: string
  AllowedPeers :: string
  DataDir :: string

text \<open>
  The instances that \<open>Init\<close> constructs are recorded by the arguments of their
  constructors: \<open>netceptor.New(ctx, nodeID, allowedPeers)\<close>,
  \<open>workceptor.New(ctx, nc, dataDir)\<close> and \<open>controlsvc.New(stdServices, nc)\<close>.
\<close>

record Netceptor =
  nodeID :: string
  allowedPeers :: "string list"

record Workceptor =
  w_nc :: Netceptor
  dataDir :: string

record ControlSvc =
  stdServices :: bool
  cs_nc :: Netceptor

text \<open>The package-level variables \<open>MainInstance\<close> of the three packages.\<close>

record globals =
  netceptor_MainInstance :: "Netceptor option"
  workceptor_MainInstance :: "Workceptor option"
  controlsvc_MainInstance :: "ControlSvc option"

text \<open>
  What \<open>Init\<close> reads from outside the file: the result of \<open>os.Hostname()\<close>, the Unicode
  lower-casing of the Go library, the error result of \<open>workceptor.New\<close> and the error
  result of \<open>RegisterWithControlService\<close>.
\<close>

record initEnv =
  Hostname :: "error + string"
  unicodeLower :: "string \<Rightarrow> string"
  workceptor_New :: "Netceptor \<Rightarrow> string \<Rightarrow> error option"
  RegisterWithControlService :: "Workceptor \<Rightarrow> ControlSvc \<Rightarrow> error option"

text \<open>
  The peer list of \<open>Init\<close>: nil for an empty \<open>AllowedPeers\<close>, and otherwise the
  comma-separated parts, each trimmed in place by the loop over the slice.
\<close>

definition splitAllowedPeers :: "string \<Rightarrow> string list" where
  "splitAllowedPeers peers =
     (if peers \<noteq> '''' then map TrimSpace (Split peers (CHR '','')) else [])"

text \<open>
  \<open>nodeCfg.Init\<close> has a value receiver: \<open>cfg\<close> is the method's own copy, the assignment
  \<open>cfg.ID = host\<close> changes that copy, and the later \<open>cfg.ID\<close> of the method read it. The
  result is the returned error and the package variables after the call. When
  \<open>workceptor.New\<close> fails, \<open>workceptor.MainInstance\<close> receives the nil instance it
  returns beside the error.
\<close>

definition Init :: "initEnv \<Rightarrow> nodeCfg \<Rightarrow> globals \<Rightarrow> error option \<times> globals" where
  "Init env cfg0 g =
     (case (if ID cfg0 = ''''
            then (case Hostname env of
                    Inl err \<Rightarrow> Inl err
                  | Inr host \<Rightarrow>
                      (let lchost = ToLower (unicodeLower env) host in
                       if lchost = ''localhost'' \<or> HasPrefix lchost ''localhost.''
                       then Inl (Errorf ''no node ID specified and local host name is localhost'' [])
                       else Inr (cfg0\<lparr>ID := host\<rparr>)))
            else Inr cfg0) of
        Inl err \<Rightarrow> (Some err, g)
      | Inr cfg \<Rightarrow>
          if ToLower (unicodeLower env) (ID cfg) = ''localhost''
          then (Some (Errorf (''node ID '' @ [CHR 0x22] @ ''localhost'' @ [CHR 0x22] @ '' is reserved'') []), g)
          else
            (let n = \<lparr>nodeID = ID cfg, allowedPeers = splitAllowedPeers (AllowedPeers cfg)\<rparr>;
                 g1 = g\<lparr>netceptor_MainInstance := Some n\<rparr>;
                 w = \<lparr>w_nc = n, dataDir = DataDir cfg\<rparr>
             in case workceptor_New env n (DataDir cfg) of
                  Some err \<Rightarrow> (Some err, g1\<lparr>workceptor_MainInstance := None\<rparr>)
                | None \<Rightarrow>
                    (let c = \<lparr>stdServices = True, cs_nc = n\<rparr>;
                         g2 = g1\<lparr>workceptor_MainInstance := Some w,
                                 controlsvc_MainInstance := Some c\<rparr>
                     in case RegisterWithControlService env w c of
                          Some err \<Rightarrow> (Some err, g2)
                        | None \<Rightarrow> (None, g2))))"

section \<open>Program start\<close>

text \<open>A \<open>time.Duration\<close> is a count of nanoseconds.\<close>

definition Millisecond :: int where
  "Millisecond = 1000000"

definition Second :: int where
  "Second = 1000 * Millisecond"

text \<open>
  A \<open>select\<close> over one channel operation and one \<open>time.After\<close> takes one of its two
  cases; which one is decided by the Go scheduler and the clock, and is an input here.
\<close>

datatype select_case = ChanCase | TimeAfter

text \<open>What \<open>main\<close> writes, and how it ends.\<close>

datatype written =
    Printf string "fmtarg list"
  | LogError string
  | LogWarning string
  | LogInfo string

datatype ending = Exit int | AwaitNetceptorDone

text \<open>
  What \<open>main\<close> reads from outside the file: the name and the arguments of the process
  (\<open>os.Args[0]\<close> and \<open>os.Args[1:]\<close>), the result of \<open>ParseAndRun\<close> for the given
  arguments and phases, the result of \<open>WhatRan\<close>, the result of \<open>controlsvc.InitReload\<close>
  for a configuration path, the case that the start-up \<open>select\<close> takes for the duration
  it passes to \<open>time.After\<close>, and the result of \<open>BackendCount\<close>.
\<close>

record mainEnv =
  Args0 :: string
  osArgs :: "string list"
  ParseAndRun :: "string list \<Rightarrow> string list \<Rightarrow> error option"
  WhatRan :: string
  InitReload :: "string \<Rightarrow> error option"
  startupSelect :: "int \<Rightarrow> select_case"
  BackendCount :: int

text \<open>
  The loop over \<open>osArgs\<close>: it stops at the first \<open>--config\<close> or \<open>-c\<close> and takes the
  argument after it, when there is one.
\<close>

fun configPathOf :: "string list \<Rightarrow> string" where
  "configPathOf [] = ''''"
| "configPathOf (arg # rest) =
     (if arg = ''--config'' \<or> arg = ''-c''
      then (case rest of [] \<Rightarrow> '''' | p # others \<Rightarrow> p)
      else configPathOf rest)"

text \<open>
  \<open>main\<close>, from the call of \<open>ParseAndRun\<close> on. In the \<open>ChanCase\<close> the channel \<open>done\<close> was
  closed, which the goroutine does when \<open>BackendWait\<close> returns; in the \<open>TimeAfter\<close> case
  \<open>main\<close> logs and then blocks on the channel of \<open>NetceptorDone\<close>.
\<close>

definition main :: "mainEnv \<Rightarrow> written list \<times> ending" where
  "main env =
     (case ParseAndRun env (osArgs env) [''Init'', ''Prepare'', ''Run''] of
        Some err \<Rightarrow> ([Printf (''Error: %s'' @ [CHR 0x0A]) [Err err]], Exit 1)
      | None \<Rightarrow>
          if WhatRan env \<noteq> '''' then ([], Exit 0)
          else
            (let configPath = configPathOf (osArgs env) in
             case (if configPath \<noteq> '''' then InitReload env configPath else None) of
               Some err \<Rightarrow> ([Printf (''Error: %s'' @ [CHR 0x0A]) [Err err]], Exit 1)
             | None \<Rightarrow>
                 (case startupSelect env (100 * Millisecond) of
                    ChanCase \<Rightarrow>
                      if BackendCount env > 0
                      then ([LogError (''All backends have failed. Exiting.'' @ [CHR 0x0A])], Exit 1)
                      else ([LogWarning (''Nothing to do - no backends were specified.'' @ [CHR 0x0A]),
                             Printf (''Run %s --help for command line instructions.'' @ [CHR 0x0A])
                               [Str (Args0 env)]],
                            Exit 1)
                  | TimeAfter \<Rightarrow>
                      ([LogInfo (''Initialization complete'' @ [CHR 0x0A])], AwaitNetceptorDone))))"

section \<open>The websocket backend: dialer\<close>

text \<open>
  Values of library types that the code only passes on are handles: a \<open>*tls.Config\<close>, a
  \<open>*tls.ServerConf\<close>, a \<open>*http.Response\<close>. A nil pointer is \<open>None\<close>. A \<open>[]byte\<close> is a list of
  bytes. An \<open>http.Header\<close> is the list of the pairs added to it, in the order of the
  calls of \<open>Add\<close>.
\<close>

datatype tlsConfig = TlsConfig string
datatype ServerConf = TlsServerConf string
datatype httpResponse = HttpResponse string

type_synonym bytes = string
type_synonym header = "(string \<times> string) list"

definition Add :: "header \<Rightarrow> string \<Rightarrow> string \<Rightarrow> header" where
  "Add h k v = h @ [(k, v)]"

text \<open>The two fields of a \<open>*url.URL\<close> that the code reads.\<close>

record URL =
  Scheme :: string
  Host :: string

record WebsocketDialer =
  address :: string
  origin :: string
  redial :: bool
  tlscfg :: "tlsConfig option"
  extraHeader :: string

text \<open>\<open>url.Parse\<close> is the parameter \<open>parse\<close>.\<close>

definition NewWebsocketDialer ::
  "(string \<Rightarrow> error + URL) \<Rightarrow> string \<Rightarrow> tlsConfig option \<Rightarrow> string \<Rightarrow> bool
     \<Rightarrow> error + WebsocketDialer" where
  "NewWebsocketDialer parse addr tls hdr rd =
     (case parse addr of
        Inl e \<Rightarrow> Inl e
      | Inr addrURL \<Rightarrow>
          (let httpScheme = (if Scheme addrURL = ''wss'' then ''https'' else ''http'')
           in Inr \<lparr>WebsocketDialer.address = addr,
                   origin = httpScheme @ ''://'' @ Host addrURL,
                   redial = rd,
                   WebsocketDialer.tlscfg = tls,
                   extraHeader = hdr\<rparr>))"

section \<open>The websocket backend: session\<close>

record recvResult =
  data :: bytes
  err :: "error option"

text \<open>
  The goroutine \<open>recvChannelizer\<close> is blocked in \<open>ReadMessage\<close>, or blocked in the send
  on the unbuffered \<open>recvChan\<close> with the result it has read, or has returned.
\<close>

datatype channelizer = AtReadMessage | AtSend recvResult | Returned

text \<open>
  The session, with the goroutine that \<open>newWebsocketSession\<close> starts for it. A channel
  is the number that identifies it; \<open>closeChanCloser\<close> is whether the \<open>sync.Once\<close> has
  run. The connection is a value of the websocket library, whose methods are the
  parameters \<open>ReadMessage\<close> (\<open>None\<close> while no message has arrived), \<open>WriteMessage\<close> and
  \<open>connClose\<close>, each returning the connection after the call.
\<close>

record 'c WebsocketSession =
  conn :: 'c
  recvChannelizer :: channelizer
  closeChan :: "nat option"
  closeChanCloser :: bool

record 'c connOps =
  ReadMessage :: "'c \<Rightarrow> (recvResult \<times> 'c) option"
  WriteMessage :: "'c \<Rightarrow> bytes \<Rightarrow> error option \<times> 'c"
  connClose :: "'c \<Rightarrow> error option \<times> 'c"

definition newWebsocketSession :: "'c \<Rightarrow> nat option \<Rightarrow> 'c WebsocketSession" where
  "newWebsocketSession c cc =
     \<lparr>conn = c, recvChannelizer = AtReadMessage, closeChan = cc, closeChanCloser = False\<rparr>"

text \<open>
  One step of the goroutine: \<open>ReadMessage\<close> returns and the goroutine goes on to the
  send. Blocked in the send, or returned, it does not move by itself.
\<close>

definition recvChannelizer_step :: "'c connOps \<Rightarrow> 'c WebsocketSession \<Rightarrow> 'c WebsocketSession" where
  "recvChannelizer_step ops ns =
     (case recvChannelizer ns of
        AtReadMessage \<Rightarrow>
          (case ReadMessage ops (conn ns) of
             None \<Rightarrow> ns
           | Some (rr, c) \<Rightarrow> ns\<lparr>conn := c, recvChannelizer := AtSend rr\<rparr>)
      | AtSend rr \<Rightarrow> ns
      | Returned \<Rightarrow> ns)"

definition Send :: "'c connOps \<Rightarrow> bytes \<Rightarrow> 'c WebsocketSession \<Rightarrow> error option \<times> 'c WebsocketSession" where
  "Send ops d ns =
     (case WriteMessage ops (conn ns) d of
        (Some e, c) \<Rightarrow> (Some e, ns\<lparr>conn := c\<rparr>)
      | (None, c) \<Rightarrow> (None, ns\<lparr>conn := c\<rparr>))"

text \<open>
  \<open>Recv\<close>: the \<open>select\<close> can take the receive only when the goroutine is blocked in the
  send; the goroutine then tests the error it has sent and returns or reads on. In the
  \<open>TimeAfter\<close> case, and when nothing is offered until the timer fires, the result is
  \<open>nil, ErrTimeout\<close>.
\<close>

definition Recv ::
  "select_case \<Rightarrow> int \<Rightarrow> 'c WebsocketSession \<Rightarrow> (bytes \<times> error option) \<times> 'c WebsocketSession" where
  "Recv sel timeout ns =
     (case recvChannelizer ns of
        AtSend rr \<Rightarrow>
          (case sel of
             ChanCase \<Rightarrow>
               ((data rr, err rr),
                ns\<lparr>recvChannelizer := (if err rr \<noteq> None then Returned else AtReadMessage)\<rparr>)
           | TimeAfter \<Rightarrow> (([], Some ErrTimeout), ns))
      | AtReadMessage \<Rightarrow> (([], Some ErrTimeout), ns)
      | Returned \<Rightarrow> (([], Some ErrTimeout), ns))"

text \<open>
  \<open>Close\<close>, with the set of the channels that are closed. Closing a closed channel
  panics.
\<close>

definition closeChannel :: "nat \<Rightarrow> nat set \<Rightarrow> nat set outcome" where
  "closeChannel ch chans =
     (if ch \<in> chans then Panic ''close of closed channel'' else Return (insert ch chans))"

definition Close ::
  "'c connOps \<Rightarrow> 'c WebsocketSession \<times> nat set
     \<Rightarrow> (error option \<times> 'c WebsocketSession \<times> nat set) outcome" where
  "Close ops st =
     (case st of (ns, chans) \<Rightarrow>
        (case (case closeChan ns of
                 Some ch \<Rightarrow>
                   if closeChanCloser ns then Return (ns, chans)
                   else (case closeChannel ch chans of
                           Panic m \<Rightarrow> Panic m
                         | Return chans1 \<Rightarrow>
                             Return (ns\<lparr>closeChan := None, closeChanCloser := True\<rparr>, chans1))
               | None \<Rightarrow> Return (ns, chans)) of
           Panic m \<Rightarrow> Panic m
         | Return (ns1, chans1) \<Rightarrow>
             (case connClose ops (conn ns1) of
                (e, c) \<Rightarrow> Return (e, ns1\<lparr>conn := c\<rparr>, chans1))))"

section \<open>The websocket backend: the dial function of Start\<close>

text \<open>
  \<open>DialContext\<close> of the websocket library, for the context, TLS configuration and proxy
  of the dialer, is a parameter; it returns the connection, the response and the
  error. The dial function reads the response only after a nil error, when the library
  returns a response that is not nil. \<open>BodyClose\<close> is the result of \<open>resp.Body.Close()\<close>.
\<close>

record 'c dialEnv =
  DialContext :: "string \<Rightarrow> header \<Rightarrow> 'c \<times> httpResponse \<times> error option"
  BodyClose :: "httpResponse \<Rightarrow> error option"

text \<open>Indexing a slice panics out of range.\<close>

definition index :: "'a list \<Rightarrow> nat \<Rightarrow> 'a outcome" where
  "index xs i = (if i < length xs then Return (xs ! i) else Panic ''index out of range'')"

text \<open>The header that the dial function builds before it dials.\<close>

definition dialHeader :: "WebsocketDialer \<Rightarrow> header outcome" where
  "dialHeader b =
     (case (if extraHeader b \<noteq> ''''
            then (let extraHeaderParts = SplitN (extraHeader b) (CHR '':'') 2
                  in case index extraHeaderParts 0 of
                       Panic m \<Rightarrow> Panic m
                     | Return k \<Rightarrow>
                         (case index extraHeaderParts 1 of
                            Panic m \<Rightarrow> Panic m
                          | Return v \<Rightarrow> Return (Add [] k v)))
            else Return []) of
        Panic m \<Rightarrow> Panic m
      | Return h \<Rightarrow> Return (Add h ''origin'' (origin b)))"

text \<open>
  The dial function, for the \<open>closeChan\<close> it is called with. Its second test reads the
  error of \<open>DialContext\<close> again: the statement before it, \<open>resp.Body.Close()\<close>, assigns
  nothing.
\<close>

definition dialFunc ::
  "'c dialEnv \<Rightarrow> WebsocketDialer \<Rightarrow> nat option
     \<Rightarrow> ('c WebsocketSession option \<times> error option) outcome" where
  "dialFunc env b cc =
     (case dialHeader b of
        Panic m \<Rightarrow> Panic m
      | Return h \<Rightarrow>
          (case DialContext env (WebsocketDialer.address b) h of
             (c, resp, e) \<Rightarrow>
               if e \<noteq> None then Return (None, e)
               else (let discarded = BodyClose env resp
                     in if e \<noteq> None then Return (None, e)
                        else Return (Some (newWebsocketSession c cc), None))))"

text \<open>
  \<open>Start\<close> hands the dial function to \<open>dialerSession\<close>, which is a parameter here.
\<close>

definition Start ::
  "(bool \<Rightarrow> int \<Rightarrow> (nat option \<Rightarrow> ('c WebsocketSession option \<times> error option) outcome) \<Rightarrow> 'r)
     \<Rightarrow> 'c dialEnv \<Rightarrow> WebsocketDialer \<Rightarrow> 'r" where
  "Start dialerSession env b = dialerSession (redial b) (5 * Second) (dialFunc env b)"

section \<open>The websocket backend: listener\<close>

text \<open>The \<open>net.Listener\<close> and the \<open>*http.Server\<close> of a listener are handles.\<close>

record WebsocketListener =
  address :: string
  path :: string
  tlscfg :: "tlsConfig option"
  li :: "string option"
  server :: "string option"

text \<open>The pointer and the error that \<open>NewWebsocketListener\<close> returns.\<close>

definition NewWebsocketListener ::
  "string \<Rightarrow> tlsConfig option \<Rightarrow> WebsocketListener option \<times> error option" where
  "NewWebsocketListener addr tls =
     (let ul = \<lparr>WebsocketListener.address = addr,
                 path = ''/'',
                 WebsocketListener.tlscfg = tls,
                 li = None,
                 server = None\<rparr>
      in (Some ul, None))"

text \<open>\<open>SetPath\<close> writes through its receiver, and panics when the receiver is nil.\<close>

definition SetPath :: "WebsocketListener option \<Rightarrow> string \<Rightarrow> WebsocketListener option outcome" where
  "SetPath b p =
     (case b of
        None \<Rightarrow> Panic ''nil pointer dereference''
      | Some l \<Rightarrow> Return (Some (l\<lparr>path := p\<rparr>)))"

section \<open>The websocket backend: command line configuration\<close>

text \<open>
  A \<open>float64\<close> is not a number, an infinity, or a finite value; of its operations the
  code uses the comparison \<open>x <= 0.0\<close>, which is false for what is not a number.
\<close>

datatype float64 = NaN | NegInf | Finite real | PosInf

fun leZero :: "float64 \<Rightarrow> bool" where
  "leZero NaN = False"
| "leZero NegInf = True"
| "leZero (Finite r) = (r \<le> 0)"
| "leZero PosInf = False"

text \<open>
  A \<open>map[string]float64\<close> is the list of its entries in the order in which \<open>range\<close>
  yields them, which Go leaves open; the nil map is the empty list.
\<close>

type_synonym nodeCosts = "(string \<times> float64) list"

record websocketListenerCfg =
  BindAddr :: string
  Port :: int
  Path :: string
  TLS :: string
  Cost :: float64
  NodeCost :: nodeCosts

fun nodeCostLoop :: "nodeCosts \<Rightarrow> error option" where
  "nodeCostLoop [] = None"
| "nodeCostLoop ((node, cost) # rest) =
     (if leZero cost
      then Some (Errorf ''connection cost must be positive for %s'' [Str node])
      else nodeCostLoop rest)"

definition websocketListenerCfg_Prepare :: "websocketListenerCfg \<Rightarrow> error option" where
  "websocketListenerCfg_Prepare cfg =
     (if leZero (websocketListenerCfg.Cost cfg)
      then Some (Errorf ''connection cost must be positive'' [])
      else nodeCostLoop (NodeCost cfg))"

record websocketDialerCfg =
  Address :: string
  Redial :: bool
  ExtraHeader :: string
  TLS :: string
  Cost :: float64

text \<open>\<open>url.Parse\<close> is the parameter \<open>parse\<close>.\<close>

definition websocketDialerCfg_Prepare ::
  "(string \<Rightarrow> error + URL) \<Rightarrow> websocketDialerCfg \<Rightarrow> error option" where
  "websocketDialerCfg_Prepare parse cfg =
     (if leZero (websocketDialerCfg.Cost cfg)
      then Some (Errorf ''connection cost must be positive'' [])
      else (case parse (websocketDialerCfg.Address cfg) of
              Inl e \<Rightarrow>
                Some (Errorf ''address %s is not a valid URL: %s''
                        [Str (websocketDialerCfg.Address cfg), Err e])
            | Inr u \<Rightarrow>
                if websocketDialerCfg.ExtraHeader cfg \<noteq> ''''
                   \<and> \<not> Contains (websocketDialerCfg.ExtraHeader cfg) (CHR '':'')
                then Some (Errorf ''extra header must be in the form key:value'' [])
                else None))"

section \<open>The websocket backend: configuration by setup\<close>

text \<open>
  What the two \<open>setup\<close> methods call outside the file: \<open>TLSConfig\<close> of a server
  configuration, \<open>url.Parse\<close>, the two cost validations, and \<open>AddBackend\<close> of the
  netceptor, which receives the backend as an interface value.
\<close>

datatype backend =
    ListenerBackend "WebsocketListener option"
  | DialerBackend WebsocketDialer

record setupEnv =
  TLSConfig :: "ServerConf \<Rightarrow> tlsConfig option \<times> error option"
  urlParse :: "string \<Rightarrow> error + URL"
  validateListenerCost :: "float64 option \<Rightarrow> nodeCosts \<Rightarrow> float64 \<times> nodeCosts \<times> error option"
  validateDialCost :: "float64 option \<Rightarrow> float64 \<times> error option"
  AddBackend :: "backend \<Rightarrow> float64 \<Rightarrow> nodeCosts \<Rightarrow> error option"

record WSListen =
  TLS :: "ServerConf option"
  Address :: string
  Cost :: "float64 option"
  NodeCosts :: nodeCosts
  Path :: "string option"

definition WSListen_setup :: "setupEnv \<Rightarrow> WSListen \<Rightarrow> error option outcome" where
  "WSListen_setup env c =
     (case (case WSListen.TLS c of
              None \<Rightarrow> Inr None
            | Some t \<Rightarrow>
                (case TLSConfig env t of
                   (tc, Some e) \<Rightarrow>
                     Inl (Errorf ''could not create tls config for ws listener %s: %w''
                            [Str (WSListen.Address c), Err e])
                 | (tc, None) \<Rightarrow> Inr tc)) of
        Inl e \<Rightarrow> Return (Some e)
      | Inr tlsConf \<Rightarrow>
          (case NewWebsocketListener (WSListen.Address c) tlsConf of
             (b0, e0) \<Rightarrow>
               (case (case WSListen.Path c of
                        Some p \<Rightarrow> SetPath b0 p
                      | None \<Rightarrow> Return b0) of
                  Panic m \<Rightarrow> Panic m
                | Return b \<Rightarrow>
                    (case e0 of
                       Some e \<Rightarrow>
                         Return (Some (Errorf ''could not create ws listener for %s from config: %w''
                                         [Str (WSListen.Address c), Err e]))
                     | None \<Rightarrow>
                         (case validateListenerCost env (WSListen.Cost c) (NodeCosts c) of
                            (cost, ncs, Some e) \<Rightarrow>
                              Return (Some (Errorf ''invalid ws listener config for %s: %w''
                                              [Str (WSListen.Address c), Err e]))
                          | (cost, ncs, None) \<Rightarrow>
                              (case AddBackend env (ListenerBackend b) cost ncs of
                                 Some e \<Rightarrow>
                                   Return (Some (Errorf ''error creating backend for ws listener %s: %w''
                                                   [Str (WSListen.Address c), Err e]))
                               | None \<Rightarrow> Return None))))))"

record WSDial =
  TLS :: "ServerConf option"
  Address :: string
  Cost :: "float64 option"
  NoRedial :: bool
  ExtraHeader :: "string option"

text \<open>
  \<open>WSDial.setup\<close> up to the dialer it constructs, and the whole of it.
\<close>

definition WSDial_dialer :: "setupEnv \<Rightarrow> WSDial \<Rightarrow> error + WebsocketDialer" where
  "WSDial_dialer env c =
     (case (case WSDial.ExtraHeader c of
              None \<Rightarrow> Inr ''''
            | Some h \<Rightarrow>
                if h = '''' \<or> \<not> Contains h (CHR '':'')
                then Inl (Errorf ''invalid ws parameters for ws listener %s: %w''
                            [Str (WSDial.Address c), Err ErrInvalidHTTPHeader])
                else Inr h) of
        Inl e \<Rightarrow> Inl e
      | Inr hdr \<Rightarrow>
          (case (case WSDial.TLS c of
                   None \<Rightarrow> Inr None
                 | Some t \<Rightarrow>
                     (case TLSConfig env t of
                        (tc, Some e) \<Rightarrow>
                          Inl (Errorf ''could not create tls config for ws dialer %s: %w''
                                 [Str (WSDial.Address c), Err e])
                      | (tc, None) \<Rightarrow> Inr tc)) of
             Inl e \<Rightarrow> Inl e
           | Inr tlsConf \<Rightarrow>
               (case NewWebsocketDialer (urlParse env) (WSDial.Address c) tlsConf hdr (\<not> NoRedial c) of
                  Inl e \<Rightarrow>
                    Inl (Errorf ''could not create ws dialer for %s from config: %w''
                           [Str (WSDial.Address c), Err e])
                | Inr b \<Rightarrow> Inr b)))"

definition WSDial_setup :: "setupEnv \<Rightarrow> WSDial \<Rightarrow> error option" where
  "WSDial_setup env c =
     (case WSDial_dialer env c of
        Inl e \<Rightarrow> Some e
      | Inr b \<Rightarrow>
          (case validateDialCost env (WSDial.Cost c) of
             (cost, Some e) \<Rightarrow>
               Some (Errorf ''invalid ws listener dialer for %s: %w'' [Str (WSDial.Address c), Err e])
           | (cost, None) \<Rightarrow>
               (case AddBackend env (DialerBackend b) cost [] of
                  Some e \<Rightarrow>
                    Some (Errorf ''error creating backend for ws dialer %s: %w''
                            [Str (WSDial.Address c), Err e])
                | None \<Rightarrow> None)))"

section \<open>The dialer-session helper\<close>

text \<open>
  Modelled from the spec: the dialer-session helper \<open>dialerSession\<close> of package backends,
  which \<open>Start\<close> calls and which is not among the source files. The spec says of it:
  for a dialer the factory "emits one session and, if redial is enabled, re-emits a new
  session after reconnection with an exponential-then-capped backoff (5 s initial)";
  "backend dial failures are retried with exponential backoff capped at 60 s while the
  factory's cancellation token is unset"; "cancellation causes the factory to stop
  accepting/dialing and close the emitting channel".

  The model is the sequence of what the helper does, for a given number of dials after
  which the token is cancelled: it calls the dial function with a fresh close channel;
  it emits the session of a successful dial and, when that connection is lost, backs
  off and dials again if redial is enabled, and closes the channel of sessions if not;
  it backs off and dials again after a failed dial. The backoff after a lost connection
  is the delay that the helper is given; after each failed dial in a row it doubles, up
  to 60 s.
\<close>

datatype 's dialerEvent = Emit 's | Backoff int | SessChanClosed | Panicked string

fun dialerSession_loop ::
  "nat \<Rightarrow> nat \<Rightarrow> int \<Rightarrow> int \<Rightarrow> bool
     \<Rightarrow> (nat option \<Rightarrow> ('s option \<times> error option) outcome) \<Rightarrow> 's dialerEvent list" where
  "dialerSession_loop 0 k initial delay rd df = [SessChanClosed]"
| "dialerSession_loop (Suc n) k initial delay rd df =
     (case df (Some k) of
        Panic m \<Rightarrow> [Panicked m]
      | Return (Some sess, None) \<Rightarrow>
          Emit sess
          # (if rd
             then Backoff initial
                  # dialerSession_loop n (Suc k) initial (min (2 * initial) (60 * Second)) rd df
             else [SessChanClosed])
      | Return failed \<Rightarrow>
          Backoff delay
          # dialerSession_loop n (Suc k) initial (min (2 * delay) (60 * Second)) rd df)"

definition dialerSession ::
  "nat \<Rightarrow> bool \<Rightarrow> int \<Rightarrow> (nat option \<Rightarrow> ('s option \<times> error option) outcome)
     \<Rightarrow> 's dialerEvent list" where
  "dialerSession dials rd delay df = dialerSession_loop dials 0 delay delay rd df"

text \<open>
  The delays of the backoffs that follow an emitted session at once: the waits before
  the redial of a lost connection.
\<close>

fun redialBackoffs :: "'s dialerEvent list \<Rightarrow> int list" where
  "redialBackoffs (Emit s # Backoff d # rest) = d # redialBackoffs rest"
| "redialBackoffs (e # rest) = redialBackoffs rest"
| "redialBackoffs [] = []"

section \<open>Example inputs\<close>

text \<open>Concrete configurations and environments, at which the theorems are instantiated.\<close>

definition exampleGlobals :: globals where
  "exampleGlobals =
     \<lparr>netceptor_MainInstance = None, workceptor_MainInstance = None,
      controlsvc_MainInstance = None\<rparr>"

definition exampleInitEnv :: "string \<Rightarrow> error option \<Rightarrow> initEnv" where
  "exampleInitEnv host werr =
     \<lparr>Hostname = Inr host, unicodeLower = (\<lambda>s. s),
      workceptor_New = (\<lambda>n d. werr), RegisterWithControlService = (\<lambda>w c. None)\<rparr>"

definition exampleNodeCfg :: "string \<Rightarrow> nodeCfg" where
  "exampleNodeCfg i = \<lparr>ID = i, AllowedPeers = ''a, b'', DataDir = ''/tmp''\<rparr>"

definition exampleMainEnv :: "select_case \<Rightarrow> int \<Rightarrow> mainEnv" where
  "exampleMainEnv sel n =
     \<lparr>Args0 = ''receptor'', osArgs = [''--node'', ''id=node1''],
      ParseAndRun = (\<lambda>args phases. None), WhatRan = '''',
      InitReload = (\<lambda>p. None), startupSelect = (\<lambda>d. sel), BackendCount = n\<rparr>"

text \<open>
  A connection for the examples: the messages that are yet to arrive, and whether it
  is closed. A closed connection answers every call with an error.
\<close>

record exampleConn =
  arriving :: "recvResult list"
  connClosed :: bool

definition exampleOps :: "exampleConn connOps" where
  "exampleOps =
     \<lparr>ReadMessage = (\<lambda>c. if connClosed c
                          then Some (\<lparr>data = [], err = Some (ExtError ''use of closed network connection'')\<rparr>, c)
                          else (case arriving c of
                                  [] \<Rightarrow> None
                                | rr # rest \<Rightarrow> Some (rr, c\<lparr>arriving := rest\<rparr>))),
      WriteMessage = (\<lambda>c d. (if connClosed c then Some (ExtError ''use of closed network connection'') else None, c)),
      connClose = (\<lambda>c. (if connClosed c then Some (ExtError ''use of closed network connection'') else None,
                         c\<lparr>connClosed := True\<rparr>))\<rparr>"

definition exampleSession :: "recvResult list \<Rightarrow> channelizer \<Rightarrow> exampleConn WebsocketSession" where
  "exampleSession msgs g =
     \<lparr>conn = \<lparr>arriving = msgs, connClosed = False\<rparr>, recvChannelizer = g,
      closeChan = Some 0, closeChanCloser = False\<rparr>"

definition ping :: recvResult where
  "ping = \<lparr>data = ''ping'', err = None\<rparr>"

definition exampleURLParse :: "string \<Rightarrow> error + URL" where
  "exampleURLParse a =
     (if a = ''ws://peer:8080'' then Inr \<lparr>Scheme = ''ws'', Host = ''peer:8080''\<rparr>
      else Inl (ExtError ''parse''))"

definition exampleListenerCfg :: "float64 \<Rightarrow> nodeCosts \<Rightarrow> websocketListenerCfg" where
  "exampleListenerCfg c ncs =
     \<lparr>BindAddr = ''0.0.0.0'', Port = 8080, websocketListenerCfg.Path = ''/'',
      websocketListenerCfg.TLS = '''', websocketListenerCfg.Cost = c, NodeCost = ncs\<rparr>"

definition exampleDialerCfg :: "string \<Rightarrow> string \<Rightarrow> float64 \<Rightarrow> websocketDialerCfg" where
  "exampleDialerCfg a h c =
     \<lparr>websocketDialerCfg.Address = a, Redial = True, websocketDialerCfg.ExtraHeader = h,
      websocketDialerCfg.TLS = '''', websocketDialerCfg.Cost = c\<rparr>"

definition exampleDialer :: "string \<Rightarrow> WebsocketDialer" where
  "exampleDialer h =
     \<lparr>WebsocketDialer.address = ''ws://peer:8080'', origin = ''http://peer:8080'', redial = True,
      WebsocketDialer.tlscfg = None, extraHeader = h\<rparr>"

definition exampleDialEnv :: "error option \<Rightarrow> nat dialEnv" where
  "exampleDialEnv e =
     \<lparr>DialContext = (\<lambda>a h. (7, HttpResponse ''101 Switching Protocols'', e)),
      BodyClose = (\<lambda>r. Some (ExtError ''body''))\<rparr>"

definition exampleSetupEnv :: setupEnv where
  "exampleSetupEnv =
     \<lparr>TLSConfig = (\<lambda>t. (Some (TlsConfig ''server''), None)),
      urlParse = exampleURLParse,
      validateListenerCost = (\<lambda>c ncs. (Finite 1, ncs, None)),
      validateDialCost = (\<lambda>c. (Finite 1, None)),
      AddBackend = (\<lambda>b c ncs. None)\<rparr>"

definition exampleWSDial :: "string option \<Rightarrow> WSDial" where
  "exampleWSDial h =
     \<lparr>WSDial.TLS = None, WSDial.Address = ''ws://peer:8080'', WSDial.Cost = None,
      NoRedial = False, WSDial.ExtraHeader = h\<rparr>"

definition exampleWSListen :: "string option \<Rightarrow> WSListen" where
  "exampleWSListen p =
     \<lparr>WSListen.TLS = None, WSListen.Address = ''0.0.0.0:8080'', WSListen.Cost = None,
      NodeCosts = [], WSListen.Path = p\<rparr>"

section \<open>Properties of the string functions\<close>

lemma ToLower_Nil: "ToLower u '''' = ''''"
  by (simp add: ToLower_def)

lemma isASCII_lowerByte: "isASCII (lowerByte c) \<Longrightarrow> isASCII c"
  by (auto simp: isASCII_def lowerByte_def isUpper_def split: if_splits)

lemma ToLower_ascii: "list_all isASCII s \<Longrightarrow> ToLower u s = map lowerByte s"
  by (induction s)
     (auto simp: ToLower_def lowerByte_def list_ex_iff list_all_iff intro!: map_idI[symmetric])

text \<open>
  Every spelling of \<open>localhost\<close> in upper and lower case ASCII letters is lower-cased to
  \<open>localhost\<close>.
\<close>

lemma ToLower_case_variant:
  assumes "map lowerByte s = ''localhost''"
  shows "ToLower u s = ''localhost''"
proof -
  have "list_all isASCII (map lowerByte s)"
    unfolding assms by (simp add: isASCII_def)
  then have "list_all isASCII s"
    by (auto simp: list_all_iff intro: isASCII_lowerByte)
  then show ?thesis
    using assms by (simp add: ToLower_ascii)
qed

lemma IndexByte_None_iff: "IndexByte s c = None \<longleftrightarrow> c \<notin> set s"
  by (induction s) auto

lemma Contains_iff: "Contains s c \<longleftrightarrow> c \<in> set s"
  by (simp add: Contains_def IndexByte_None_iff)

lemma SplitN_2_length:
  "length (SplitN s c 2) = (if c \<in> set s then 2 else 1)"
  by (cases "IndexByte s c") (auto simp: SplitN_def numeral_2_eq_2 IndexByte_None_iff[symmetric])

section \<open>The node ID\<close>

text \<open>
  C2. For every node configuration whose ID is lower-cased to \<open>localhost\<close>, which is how
  the code compares it without regard to case, \<open>Init\<close> returns an error and leaves the
  package variables as they were: no netceptor instance is created.
\<close>

theorem Init_rejects_localhost:
  assumes "ToLower (unicodeLower env) (ID cfg) = ''localhost''"
  shows "\<exists>e. Init env cfg g = (Some e, g)"
proof -
  from assms have "ID cfg \<noteq> ''''"
    by (auto simp: ToLower_Nil)
  with assms show ?thesis
    by (simp add: Init_def)
qed

theorem Init_rejects_localhost_witness:
  "ToLower (unicodeLower (exampleInitEnv ''node1'' None)) (ID (exampleNodeCfg ''LocalHost''))
     = ''localhost''
   \<and> (\<exists>e. Init (exampleInitEnv ''node1'' None) (exampleNodeCfg ''LocalHost'') exampleGlobals
            = (Some e, exampleGlobals))"
proof -
  have h: "ToLower (unicodeLower (exampleInitEnv ''node1'' None)) (ID (exampleNodeCfg ''LocalHost''))
             = ''localhost''"
    by (simp add: exampleInitEnv_def exampleNodeCfg_def ToLower_def isASCII_def isUpper_def
          lowerByte_def char_of_eq_iff)
  show ?thesis
    using h Init_rejects_localhost [OF h, of exampleGlobals] by simp
qed

text \<open>
  C1, as the code has it. For a configuration with an empty ID and a host name that
  \<open>os.Hostname\<close> returns: when the lower-cased host name is \<open>localhost\<close> or begins with
  \<open>localhost.\<close>, \<open>Init\<close> returns an error and no instance is created; otherwise the
  netceptor instance is constructed with the host name as its node ID, and \<open>Init\<close>
  returns the error of \<open>workceptor.New\<close> when there is one, and else what
  \<open>RegisterWithControlService\<close> returns, so that it succeeds exactly when both do.
\<close>

theorem Init_default_ID:
  assumes "ID cfg = ''''" and "Hostname env = Inr host"
  shows "if ToLower (unicodeLower env) host = ''localhost''
            \<or> HasPrefix (ToLower (unicodeLower env) host) ''localhost.''
         then \<exists>e. Init env cfg g = (Some e, g)
         else (let n = \<lparr>nodeID = host, allowedPeers = splitAllowedPeers (AllowedPeers cfg)\<rparr>
               in netceptor_MainInstance (snd (Init env cfg g)) = Some n
                  \<and> fst (Init env cfg g) =
                      (case workceptor_New env n (DataDir cfg) of
                         Some e \<Rightarrow> Some e
                       | None \<Rightarrow>
                           RegisterWithControlService env
                             \<lparr>w_nc = n, dataDir = DataDir cfg\<rparr>
                             \<lparr>stdServices = True, cs_nc = n\<rparr>))"
  using assms by (auto simp: Init_def Let_def split: option.splits)

theorem Init_default_ID_witness:
  "ID (exampleNodeCfg '''') = ''''
   \<and> Hostname (exampleInitEnv ''Node1.example.com'' None) = Inr ''Node1.example.com''
   \<and> netceptor_MainInstance
        (snd (Init (exampleInitEnv ''Node1.example.com'' None) (exampleNodeCfg '''') exampleGlobals))
       = Some \<lparr>nodeID = ''Node1.example.com'', allowedPeers = [''a'', ''b'']\<rparr>
   \<and> fst (Init (exampleInitEnv ''Node1.example.com'' None) (exampleNodeCfg '''') exampleGlobals)
       = None
   \<and> Hostname (exampleInitEnv ''LocalHost.localdomain'' None) = Inr ''LocalHost.localdomain''
   \<and> (\<exists>e. Init (exampleInitEnv ''LocalHost.localdomain'' None) (exampleNodeCfg '''') exampleGlobals
            = (Some e, exampleGlobals))"
proof -
  have a: "ID (exampleNodeCfg '''') = ''''"
    by (simp add: exampleNodeCfg_def)
  have b: "Hostname (exampleInitEnv h None) = Inr h" for h
    by (simp add: exampleInitEnv_def)
  have c: "ToLower (unicodeLower (exampleInitEnv h None)) ''Node1.example.com'' = ''node1.example.com''"
    for h
    by (simp add: ToLower_def isASCII_def isUpper_def lowerByte_def char_of_eq_iff)
  have d: "ToLower (unicodeLower (exampleInitEnv h None)) ''LocalHost.localdomain''
             = ''localhost.localdomain''" for h
    by (simp add: ToLower_def isASCII_def isUpper_def lowerByte_def char_of_eq_iff)
  have e: "splitAllowedPeers (AllowedPeers (exampleNodeCfg '''')) = [''a'', ''b'']"
    by (simp add: exampleNodeCfg_def splitAllowedPeers_def Split_def SplitN_def Count_def
          TrimSpace_def isSpace_def)
  have f: "workceptor_New (exampleInitEnv h None) n dd = None
           \<and> RegisterWithControlService (exampleInitEnv h None) w cs = None" for h n dd w cs
    by (simp add: exampleInitEnv_def)
  show ?thesis
    using Init_default_ID [OF a b, of "''Node1.example.com''" exampleGlobals]
          Init_default_ID [OF a b, of "''LocalHost.localdomain''" exampleGlobals]
    by (simp add: a b c d e f HasPrefix_def Let_def)
qed

text \<open>
  C1 as it is stated fails where \<open>workceptor.New\<close> returns an error: the ID is empty,
  the host name is \<open>node1\<close>, and \<open>Init\<close> returns that error.
\<close>

theorem Init_default_ID_counterexample:
  "ID (exampleNodeCfg '''') = ''''
   \<and> Hostname (exampleInitEnv ''node1'' (Some (ExtError ''workceptor''))) = Inr ''node1''
   \<and> ToLower (unicodeLower (exampleInitEnv ''node1'' (Some (ExtError ''workceptor'')))) ''node1''
       \<noteq> ''localhost''
   \<and> \<not> HasPrefix
         (ToLower (unicodeLower (exampleInitEnv ''node1'' (Some (ExtError ''workceptor'')))) ''node1'')
         ''localhost.''
   \<and> fst (Init (exampleInitEnv ''node1'' (Some (ExtError ''workceptor''))) (exampleNodeCfg '''')
            exampleGlobals)
       = Some (ExtError ''workceptor'')"
  by (simp add: Init_def exampleInitEnv_def exampleNodeCfg_def ToLower_def isASCII_def
        isUpper_def HasPrefix_def Let_def)

section \<open>Program start\<close>

text \<open>
  C3. When \<open>ParseAndRun\<close> has succeeded, no exclusive command ran and the reload was set
  up, \<open>main\<close> selects between the channel \<open>done\<close> and a timer of 100 ms (100000000 ns).
  When \<open>done\<close> is closed first, all backends having ended, the process exits with code
  1, after the error that all backends have failed when the backend count is above zero
  and after the warning that no backends were specified otherwise. When the timer fires
  first, \<open>main\<close> logs that the initialization is complete and waits for the netceptor
  to finish.
\<close>

theorem main_startup:
  assumes "ParseAndRun env (osArgs env) [''Init'', ''Prepare'', ''Run''] = None"
      and "WhatRan env = ''''"
      and "(if configPathOf (osArgs env) \<noteq> '''' then InitReload env (configPathOf (osArgs env)) else None) = None"
  shows "case startupSelect env 100000000 of
           ChanCase \<Rightarrow>
             snd (main env) = Exit 1
             \<and> fst (main env) =
                 (if BackendCount env > 0
                  then [LogError (''All backends have failed. Exiting.'' @ [CHR 0x0A])]
                  else [LogWarning (''Nothing to do - no backends were specified.'' @ [CHR 0x0A]),
                        Printf (''Run %s --help for command line instructions.'' @ [CHR 0x0A])
                          [Str (Args0 env)]])
         | TimeAfter \<Rightarrow>
             main env = ([LogInfo (''Initialization complete'' @ [CHR 0x0A])], AwaitNetceptorDone)"
  using assms by (simp add: main_def Let_def Millisecond_def split: select_case.splits)

theorem main_startup_witness:
  "main (exampleMainEnv ChanCase 1)
     = ([LogError (''All backends have failed. Exiting.'' @ [CHR 0x0A])], Exit 1)
   \<and> snd (main (exampleMainEnv ChanCase 0)) = Exit 1
   \<and> main (exampleMainEnv TimeAfter 1)
     = ([LogInfo (''Initialization complete'' @ [CHR 0x0A])], AwaitNetceptorDone)"
  using main_startup [of "exampleMainEnv ChanCase 1"] main_startup [of "exampleMainEnv ChanCase 0"]
        main_startup [of "exampleMainEnv TimeAfter 1"]
  by (simp add: exampleMainEnv_def prod_eq_iff)

section \<open>The websocket session\<close>

text \<open>
  C4. When the timer of \<open>Recv\<close> fires first, or the goroutine offers nothing (it waits
  in \<open>ReadMessage\<close>, or has returned), \<open>Recv\<close> returns \<open>ErrTimeout\<close> and leaves the session
  as it was. The next frame is not consumed: when the goroutine then offers a result,
  one that it held during the timeout or one that arrived after it, a later \<open>Recv\<close> that
  takes the receive returns that result.
\<close>

theorem Recv_timeout_keeps_frame:
  assumes "sel = TimeAfter \<or> recvChannelizer ns = AtReadMessage \<or> recvChannelizer ns = Returned"
  shows "Recv sel t ns = (([], Some ErrTimeout), ns)
         \<and> (recvChannelizer (recvChannelizer_step ops ns) = AtSend rr \<longrightarrow>
              fst (Recv ChanCase t' (recvChannelizer_step ops (snd (Recv sel t ns))))
                = (data rr, err rr))"
proof -
  from assms have timed_out: "Recv sel t ns = (([], Some ErrTimeout), ns)"
    by (auto simp: Recv_def split: channelizer.splits select_case.splits)
  moreover have "fst (Recv ChanCase t' s) = (data rr, err rr)" if "recvChannelizer s = AtSend rr" for s :: "'a WebsocketSession"
    using that by (simp add: Recv_def)
  ultimately show ?thesis
    by simp
qed

theorem Recv_timeout_keeps_frame_witness:
  "Recv ChanCase Second (exampleSession [] AtReadMessage)
     = (([], Some ErrTimeout), exampleSession [] AtReadMessage)
   \<and> fst (Recv ChanCase Second
        (recvChannelizer_step exampleOps
           (snd (Recv TimeAfter Second (exampleSession [ping] AtReadMessage)))))
     = (''ping'', None)
   \<and> fst (Recv ChanCase Second
        (recvChannelizer_step exampleOps
           (snd (Recv TimeAfter Second (exampleSession [] (AtSend ping))))))
     = (''ping'', None)"
proof -
  have a: "ChanCase = TimeAfter \<or> recvChannelizer (exampleSession [] AtReadMessage) = AtReadMessage
             \<or> recvChannelizer (exampleSession [] AtReadMessage) = Returned"
    by (simp add: exampleSession_def)
  have b: "recvChannelizer (recvChannelizer_step exampleOps (exampleSession [ping] AtReadMessage))
             = AtSend ping"
    by (simp add: recvChannelizer_step_def exampleSession_def exampleOps_def)
  have c: "recvChannelizer (recvChannelizer_step exampleOps (exampleSession [] (AtSend ping)))
             = AtSend ping"
    by (simp add: recvChannelizer_step_def exampleSession_def)
  have d: "(data ping, err ping) = (''ping'', None)"
    by (simp add: ping_def)
  have t: "TimeAfter = TimeAfter \<or> recvChannelizer ns = AtReadMessage \<or> recvChannelizer ns = Returned"
    for ns :: "exampleConn WebsocketSession"
    by simp
  have "Recv ChanCase Second (exampleSession [] AtReadMessage)
          = (([], Some ErrTimeout), exampleSession [] AtReadMessage)"
    using Recv_timeout_keeps_frame [OF a] by blast
  moreover have "fst (Recv ChanCase Second
        (recvChannelizer_step exampleOps
           (snd (Recv TimeAfter Second (exampleSession [ping] AtReadMessage)))))
     = (data ping, err ping)"
    using Recv_timeout_keeps_frame [OF t] b by blast
  moreover have "fst (Recv ChanCase Second
        (recvChannelizer_step exampleOps
           (snd (Recv TimeAfter Second (exampleSession [] (AtSend ping))))))
     = (data ping, err ping)"
    using Recv_timeout_keeps_frame [OF t] c by blast
  ultimately show ?thesis
    unfolding d by blast
qed

lemma Close_done:
  assumes "closeChan ns = None \<or> closeChanCloser ns"
  shows "Close ops (ns, chans)
           = Return (fst (connClose ops (conn ns)), ns\<lparr>conn := snd (connClose ops (conn ns))\<rparr>, chans)"
  using assms by (auto simp: Close_def split: option.splits prod.splits)

lemma Close_Return:
  assumes "Close ops (ns, chans) = Return (e1, ns1, chans1)"
  shows "(closeChan ns1 = None \<or> closeChanCloser ns1) \<and> recvChannelizer ns1 = recvChannelizer ns"
proof (cases "closeChan ns")
  case None
  with assms show ?thesis
    by (auto simp: Close_def split: prod.splits)
next
  case (Some ch)
  with assms show ?thesis
    by (auto simp: Close_def closeChannel_def split: prod.splits if_splits)
qed

lemma Send_result:
  "Send ops d ns
     = (fst (WriteMessage ops (conn ns) d), ns\<lparr>conn := snd (WriteMessage ops (conn ns) d)\<rparr>)"
  by (simp add: Send_def split: prod.splits option.splits)

lemma Recv_result_channelizer:
  "recvChannelizer ns1 = recvChannelizer ns \<Longrightarrow> fst (Recv sel t ns1) = fst (Recv sel t ns)"
  by (simp add: Recv_def split: channelizer.splits select_case.splits)

text \<open>
  C5, as the code has it. After a \<open>Close\<close> that returned, a second \<open>Close\<close> returns
  too: it closes no channel (the set of closed channels is as before), and calls
  \<open>Close\<close> of the connection again, whose result it returns. \<open>Send\<close> after \<open>Close\<close> returns
  what \<open>WriteMessage\<close> of the connection returns, and \<open>Recv\<close> after \<open>Close\<close> returns what it
  would have returned before it: the session has no state of its own that records
  the close.
\<close>

theorem Close_again:
  assumes "Close ops (ns, chans) = Return (e1, ns1, chans1)"
  shows "Close ops (ns1, chans1)
           = Return (fst (connClose ops (conn ns1)), ns1\<lparr>conn := snd (connClose ops (conn ns1))\<rparr>, chans1)
         \<and> Send ops d ns1
           = (fst (WriteMessage ops (conn ns1) d), ns1\<lparr>conn := snd (WriteMessage ops (conn ns1) d)\<rparr>)
         \<and> fst (Recv sel t ns1) = fst (Recv sel t ns)"
proof -
  from Close_Return [OF assms]
  have once: "closeChan ns1 = None \<or> closeChanCloser ns1"
    and same: "recvChannelizer ns1 = recvChannelizer ns"
    by simp_all
  show ?thesis
    using Close_done [OF once] Send_result Recv_result_channelizer [OF same] by simp
qed

theorem Close_again_witness:
  "Close exampleOps (exampleSession [] AtReadMessage, {})
     = Return (None, (exampleSession [] AtReadMessage)
                       \<lparr>conn := \<lparr>arriving = [], connClosed = True\<rparr>, closeChan := None, closeChanCloser := True\<rparr>, {0})
   \<and> Close exampleOps ((exampleSession [] AtReadMessage)
                       \<lparr>conn := \<lparr>arriving = [], connClosed = True\<rparr>, closeChan := None, closeChanCloser := True\<rparr>, {0})
     = Return (Some (ExtError ''use of closed network connection''),
               (exampleSession [] AtReadMessage)
                       \<lparr>conn := \<lparr>arriving = [], connClosed = True\<rparr>, closeChan := None, closeChanCloser := True\<rparr>, {0})"
proof -
  have a: "Close exampleOps (exampleSession [] AtReadMessage, {})
     = Return (None, (exampleSession [] AtReadMessage)
                       \<lparr>conn := \<lparr>arriving = [], connClosed = True\<rparr>, closeChan := None, closeChanCloser := True\<rparr>, {0})"
    by (simp add: Close_def closeChannel_def exampleSession_def exampleOps_def)
  show ?thesis
    using a Close_again [OF a] by (simp add: exampleSession_def exampleOps_def)
qed

text \<open>
  C5 as it is stated fails for \<open>Recv\<close>: with a frame that the goroutine has read and
  holds, \<open>Close\<close> succeeds and the \<open>Recv\<close> after it returns the frame and no error.
\<close>

theorem Close_then_Recv_counterexample:
  "Close exampleOps (exampleSession [] (AtSend ping), {})
     = Return (None,
               (exampleSession [] (AtSend ping))
                 \<lparr>conn := \<lparr>arriving = [], connClosed = True\<rparr>,
                  closeChan := None, closeChanCloser := True\<rparr>,
               {0})
   \<and> fst (Recv ChanCase Second
            ((exampleSession [] (AtSend ping))
               \<lparr>conn := \<lparr>arriving = [], connClosed = True\<rparr>,
                closeChan := None, closeChanCloser := True\<rparr>))
       = (''ping'', None)"
  by (simp add: Close_def closeChannel_def exampleSession_def exampleOps_def Recv_def ping_def)

section \<open>The websocket configuration\<close>

lemma nodeCostLoop_error_iff:
  "nodeCostLoop ncs \<noteq> None \<longleftrightarrow> list_ex (\<lambda>(node, cost). leZero cost) ncs"
  by (induction ncs rule: nodeCostLoop.induct) auto

text \<open>
  C6. \<open>Prepare\<close> of a websocket listener configuration returns an error exactly when
  \<open>Cost <= 0\<close> or some cost in \<open>NodeCost\<close> is \<open><= 0\<close>. \<open>Prepare\<close> of a websocket dialer
  configuration returns an error exactly when \<open>Cost <= 0\<close>, or \<open>url.Parse\<close> fails on the
  address, or the extra header is not empty and has no colon.
\<close>

theorem Prepare_error_iff:
  "(websocketListenerCfg_Prepare lcfg \<noteq> None)
     = (leZero (websocketListenerCfg.Cost lcfg)
        \<or> list_ex (\<lambda>(node, cost). leZero cost) (NodeCost lcfg))
   \<and> (websocketDialerCfg_Prepare parse dcfg \<noteq> None)
     = (leZero (websocketDialerCfg.Cost dcfg)
        \<or> isl (parse (websocketDialerCfg.Address dcfg))
        \<or> (websocketDialerCfg.ExtraHeader dcfg \<noteq> ''''
           \<and> CHR '':'' \<notin> set (websocketDialerCfg.ExtraHeader dcfg)))"
proof -
  have "(websocketListenerCfg_Prepare lcfg \<noteq> None)
     = (leZero (websocketListenerCfg.Cost lcfg)
        \<or> list_ex (\<lambda>(node, cost). leZero cost) (NodeCost lcfg))"
    using nodeCostLoop_error_iff [of "NodeCost lcfg"]
    by (simp add: websocketListenerCfg_Prepare_def)
  moreover have "(websocketDialerCfg_Prepare parse dcfg \<noteq> None)
     = (leZero (websocketDialerCfg.Cost dcfg)
        \<or> isl (parse (websocketDialerCfg.Address dcfg))
        \<or> (websocketDialerCfg.ExtraHeader dcfg \<noteq> ''''
           \<and> CHR '':'' \<notin> set (websocketDialerCfg.ExtraHeader dcfg)))"
    by (cases "parse (websocketDialerCfg.Address dcfg)")
       (simp_all add: websocketDialerCfg_Prepare_def Contains_iff)
  ultimately show ?thesis
    by simp
qed

theorem Prepare_error_iff_witness:
  "websocketListenerCfg_Prepare (exampleListenerCfg (Finite 1) [(''a'', Finite 2), (''b'', Finite 0)]) \<noteq> None
   \<and> websocketListenerCfg_Prepare (exampleListenerCfg (Finite 1) [(''a'', Finite 2)]) = None
   \<and> websocketListenerCfg_Prepare (exampleListenerCfg NaN []) = None
   \<and> websocketDialerCfg_Prepare exampleURLParse (exampleDialerCfg ''ws://peer:8080'' ''X-Key: v'' (Finite 1)) = None
   \<and> websocketDialerCfg_Prepare exampleURLParse (exampleDialerCfg ''ws://peer:8080'' ''X-Key'' (Finite 1)) \<noteq> None
   \<and> websocketDialerCfg_Prepare exampleURLParse (exampleDialerCfg ''%zz'' '''' (Finite 1)) \<noteq> None
   \<and> websocketDialerCfg_Prepare exampleURLParse (exampleDialerCfg ''ws://peer:8080'' '''' (Finite (- 1))) \<noteq> None"
  using Prepare_error_iff [of "exampleListenerCfg (Finite 1) [(''a'', Finite 2), (''b'', Finite 0)]"
          exampleURLParse "exampleDialerCfg ''ws://peer:8080'' ''X-Key: v'' (Finite 1)"]
        Prepare_error_iff [of "exampleListenerCfg (Finite 1) [(''a'', Finite 2)]"
          exampleURLParse "exampleDialerCfg ''ws://peer:8080'' ''X-Key'' (Finite 1)"]
        Prepare_error_iff [of "exampleListenerCfg NaN []"
          exampleURLParse "exampleDialerCfg ''%zz'' '''' (Finite 1)"]
        Prepare_error_iff [of "exampleListenerCfg NaN []"
          exampleURLParse "exampleDialerCfg ''ws://peer:8080'' '''' (Finite (- 1))"]
  by (simp add: exampleListenerCfg_def exampleDialerCfg_def exampleURLParse_def)

section \<open>The websocket dialer\<close>

lemma dialHeader_Return:
  assumes "extraHeader b = '''' \<or> CHR '':'' \<in> set (extraHeader b)"
  shows "\<exists>h. dialHeader b = Return h"
  using assms SplitN_2_length [of "extraHeader b" "CHR '':''"]
  by (auto simp: dialHeader_def index_def Let_def)

text \<open>
  The precondition is needed: a header that is not empty and has no colon makes the
  dial function panic.
\<close>

lemma dialHeader_Panic:
  assumes "extraHeader b \<noteq> ''''" and "CHR '':'' \<notin> set (extraHeader b)"
  shows "isPanic (dialHeader b)"
  using assms SplitN_2_length [of "extraHeader b" "CHR '':''"]
  by (auto simp: dialHeader_def index_def Let_def)

lemma redialBackoffs_loop:
  "list_all (\<lambda>d. d = initial) (redialBackoffs (dialerSession_loop n k initial delay True df))"
proof (induction n arbitrary: k delay)
  case 0
  show ?case by simp
next
  case (Suc n)
  show ?case
  proof (cases "df (Some k)")
    case (Panic m)
    then show ?thesis by simp
  next
    case (Return r)
    obtain so eo where r: "r = (so, eo)" by (cases r)
    show ?thesis
    proof (cases "\<exists>sess. so = Some sess \<and> eo = None")
      case True
      then obtain sess where "so = Some sess" "eo = None" by blast
      with Return r Suc.IH show ?thesis by simp
    next
      case False
      with Return r Suc.IH [of "Suc k" "min (2 * delay) (60 * Second)"] show ?thesis
        by (cases so; cases eo) simp_all
    qed
  qed
qed

text \<open>
  C7. \<open>Start\<close> calls the dialer-session helper, whatever it is, with the redial flag of
  the dialer, a delay of 5 s (5000000000 ns) and its dial function. With the helper of
  the spec and redial enabled, every backoff before the redial of a lost connection is
  5 s; in particular the session of a successful first dial is emitted and, when it is
  lost, the helper backs off for 5 s before it dials again.
\<close>

theorem Start_redial:
  "Start ds env b = ds (redial b) 5000000000 (dialFunc env b)
   \<and> (redial b \<longrightarrow>
        list_all (\<lambda>d. d = 5000000000) (redialBackoffs (Start (dialerSession dials) env b)))
   \<and> (redial b \<and> dialFunc env b (Some 0) = Return (Some sess, None) \<longrightarrow>
        take 2 (Start (dialerSession (Suc n)) env b) = [Emit sess, Backoff 5000000000])"
proof -
  have five: "5 * Second = 5000000000"
    by (simp add: Second_def Millisecond_def)
  have call: "Start h env b = h (redial b) 5000000000 (dialFunc env b)" for h :: "bool \<Rightarrow> int \<Rightarrow> _ \<Rightarrow> 'x"
    by (simp add: Start_def five)
  have every: "list_all (\<lambda>d. d = 5000000000) (redialBackoffs (Start (dialerSession dials) env b))"
    if "redial b"
    using that redialBackoffs_loop [of 5000000000 dials 0 5000000000 "dialFunc env b"]
    by (simp add: call dialerSession_def)
  have first: "take 2 (Start (dialerSession (Suc n)) env b) = [Emit sess, Backoff 5000000000]"
    if "redial b" and "dialFunc env b (Some 0) = Return (Some sess, None)"
    using that by (simp add: call dialerSession_def)
  from call every first show ?thesis
    by blast
qed

theorem Start_redial_witness:
  "take 2 (Start (dialerSession (Suc 2)) (exampleDialEnv None) (exampleDialer ''X-Key: v''))
     = [Emit (newWebsocketSession 7 (Some 0)), Backoff 5000000000]
   \<and> list_all (\<lambda>d. d = 5000000000)
        (redialBackoffs (Start (dialerSession (Suc 2)) (exampleDialEnv None) (exampleDialer ''X-Key: v'')))"
proof -
  have "redial (exampleDialer ''X-Key: v'')
        \<and> dialFunc (exampleDialEnv None) (exampleDialer ''X-Key: v'') (Some 0)
            = Return (Some (newWebsocketSession 7 (Some 0)), None)"
    by (simp add: exampleDialer_def exampleDialEnv_def dialFunc_def dialHeader_def SplitN_def
          index_def Add_def Let_def numeral_2_eq_2)
  then show ?thesis
    using Start_redial [of "dialerSession (Suc 2)" "exampleDialEnv None"
                           "exampleDialer ''X-Key: v''" "Suc 2" "newWebsocketSession 7 (Some 0)" 2]
    by blast
qed

text \<open>
  C8. When the header is built and \<open>DialContext\<close> returns a nil error, the dial function
  returns the new session and a nil error, whatever closing the response body returns:
  the test after it reads the same nil error, and its branch is not taken.
\<close>

theorem dialFunc_success:
  assumes "dialHeader b = Return h"
      and "DialContext env (WebsocketDialer.address b) h = (c, resp, None)"
  shows "dialFunc env b cc = Return (Some (newWebsocketSession c cc), None)"
  using assms by (simp add: dialFunc_def)

theorem dialFunc_success_witness:
  "dialHeader (exampleDialer '''') = Return [(''origin'', ''http://peer:8080'')]
   \<and> DialContext (exampleDialEnv None) (WebsocketDialer.address (exampleDialer ''''))
        [(''origin'', ''http://peer:8080'')]
       = (7, HttpResponse ''101 Switching Protocols'', None)
   \<and> dialFunc (exampleDialEnv None) (exampleDialer '''') (Some 0)
       = Return (Some (newWebsocketSession 7 (Some 0)), None)"
proof -
  have a: "dialHeader (exampleDialer '''') = Return [(''origin'', ''http://peer:8080'')]"
    by (simp add: dialHeader_def exampleDialer_def Add_def)
  have b: "DialContext (exampleDialEnv None) (WebsocketDialer.address (exampleDialer ''''))
        [(''origin'', ''http://peer:8080'')]
       = (7, HttpResponse ''101 Switching Protocols'', None)"
    by (simp add: exampleDialEnv_def)
  show ?thesis
    using a b dialFunc_success [OF a b, of "Some 0"] by simp
qed

section \<open>The websocket listener\<close>

text \<open>
  C9. \<open>NewWebsocketListener\<close> returns a listener that is not nil, with the path \<open>/\<close>,
  and a nil error, for every address and TLS configuration; and \<open>WSListen.setup\<close>, which
  calls \<open>SetPath\<close> on the result before it tests the error, never panics.
\<close>

theorem NewWebsocketListener_not_nil:
  "NewWebsocketListener a t
     = (Some \<lparr>WebsocketListener.address = a, path = ''/'', WebsocketListener.tlscfg = t,
              li = None, server = None\<rparr>, None)
   \<and> \<not> isPanic (WSListen_setup env c)"
  by (simp add: NewWebsocketListener_def WSListen_setup_def SetPath_def
        split: option.splits prod.splits sum.splits)

theorem NewWebsocketListener_not_nil_witness:
  "fst (NewWebsocketListener ''0.0.0.0:8080'' None) \<noteq> None
   \<and> snd (NewWebsocketListener ''0.0.0.0:8080'' None) = None
   \<and> \<not> isPanic (WSListen_setup exampleSetupEnv (exampleWSListen (Some ''/ws'')))"
  using NewWebsocketListener_not_nil [of "''0.0.0.0:8080''" None exampleSetupEnv "exampleWSListen (Some ''/ws'')"]
  by simp

section \<open>The extra header\<close>

text \<open>
  C10. When the extra header of a dialer is empty or has a colon, building the header
  in the dial function does not panic, and neither does the dial function: with a
  colon, \<open>SplitN\<close> for two parts returns two parts. \<open>Prepare\<close> of the dialer configuration
  succeeds only for such a header, and the dialer that \<open>WSDial.setup\<close> constructs has
  such a header.
\<close>

theorem extraHeader_split_in_range:
  "(extraHeader b = '''' \<or> CHR '':'' \<in> set (extraHeader b) \<longrightarrow>
      \<not> isPanic (dialHeader b) \<and> \<not> isPanic (dialFunc env b cc))
   \<and> (CHR '':'' \<in> set s \<longrightarrow> length (SplitN s (CHR '':'') 2) = 2)
   \<and> (websocketDialerCfg_Prepare parse cfg = None \<longrightarrow>
        websocketDialerCfg.ExtraHeader cfg = '''' \<or> CHR '':'' \<in> set (websocketDialerCfg.ExtraHeader cfg))
   \<and> (WSDial_dialer senv c = Inr b' \<longrightarrow>
        extraHeader b' = '''' \<or> CHR '':'' \<in> set (extraHeader b'))"
proof -
  have 1: "\<not> isPanic (dialHeader b) \<and> \<not> isPanic (dialFunc env b cc)"
    if "extraHeader b = '''' \<or> CHR '':'' \<in> set (extraHeader b)"
  proof -
    from dialHeader_Return [OF that] obtain h where "dialHeader b = Return h" ..
    then show ?thesis
      by (simp add: dialFunc_def split: prod.splits)
  qed
  have 2: "length (SplitN s (CHR '':'') 2) = 2" if "CHR '':'' \<in> set s"
    using that by (simp add: SplitN_2_length)
  have 3: "websocketDialerCfg.ExtraHeader cfg = '''' \<or> CHR '':'' \<in> set (websocketDialerCfg.ExtraHeader cfg)"
    if "websocketDialerCfg_Prepare parse cfg = None"
    using that
    by (auto simp: websocketDialerCfg_Prepare_def Contains_iff split: if_splits sum.splits)
  have 4: "extraHeader b' = '''' \<or> CHR '':'' \<in> set (extraHeader b')"
    if "WSDial_dialer senv c = Inr b'"
    using that
    by (auto simp: WSDial_dialer_def NewWebsocketDialer_def Contains_iff Let_def
             split: option.splits if_splits sum.splits prod.splits)
  from 1 2 3 4 show ?thesis
    by blast
qed

theorem extraHeader_split_in_range_witness:
  "\<not> isPanic (dialHeader (exampleDialer ''X-Key: v''))
   \<and> \<not> isPanic (dialFunc (exampleDialEnv None) (exampleDialer ''X-Key: v'') (Some 0))
   \<and> length (SplitN ''X-Key: v'' (CHR '':'') 2) = 2
   \<and> websocketDialerCfg_Prepare exampleURLParse
        (exampleDialerCfg ''ws://peer:8080'' ''X-Key: v'' (Finite 1)) = None
   \<and> WSDial_dialer exampleSetupEnv (exampleWSDial (Some ''X-Key: v''))
        = Inr (exampleDialer ''X-Key: v'')
   \<and> CHR '':'' \<in> set (extraHeader (exampleDialer ''X-Key: v''))"
proof -
  have a: "extraHeader (exampleDialer ''X-Key: v'') = ''''
           \<or> CHR '':'' \<in> set (extraHeader (exampleDialer ''X-Key: v''))"
    by (simp add: exampleDialer_def)
  have b: "CHR '':'' \<in> set ''X-Key: v''"
    by simp
  have c: "websocketDialerCfg_Prepare exampleURLParse
             (exampleDialerCfg ''ws://peer:8080'' ''X-Key: v'' (Finite 1)) = None"
    by (simp add: websocketDialerCfg_Prepare_def exampleURLParse_def exampleDialerCfg_def
          Contains_def)
  have d: "WSDial_dialer exampleSetupEnv (exampleWSDial (Some ''X-Key: v''))
             = Inr (exampleDialer ''X-Key: v'')"
    by (simp add: WSDial_dialer_def exampleSetupEnv_def exampleWSDial_def exampleURLParse_def
          NewWebsocketDialer_def exampleDialer_def Contains_def)
  have e: "CHR '':'' \<in> set (extraHeader (exampleDialer ''X-Key: v''))"
    by (simp add: exampleDialer_def)
  show ?thesis
    using a b c d e
          extraHeader_split_in_range [of "exampleDialer ''X-Key: v''" "exampleDialEnv None" "Some 0"
            "''X-Key: v''" exampleURLParse "exampleDialerCfg ''ws://peer:8080'' ''X-Key: v'' (Finite 1)"
            exampleSetupEnv "exampleWSDial (Some ''X-Key: v'')" "exampleDialer ''X-Key: v''"]
    by blast
qed

end
